theory Spec2Isabelle
  imports Main
begin

section \<open>The hierarchy edge of the hierarchical layout (mxGraphHierarchyEdge.js)\<close>

subsection \<open>JavaScript values and arrays\<close>

text \<open>
  A field or an array slot of the class holds \<open>undefined\<close>, \<open>null\<close> or a proper value.
  The comparison \<open>x == null\<close> of the source is true for \<open>undefined\<close> and for \<open>null\<close>,
  and \<open>x != null\<close> is its negation.
\<close>

datatype 'a js = Undefined | Null | Val 'a

fun eq_null :: "'a js \<Rightarrow> bool" where
  "eq_null Undefined = True"
| "eq_null Null = True"
| "eq_null (Val v) = False"

datatype error = TypeError

text \<open>
  A JavaScript array, as far as integer keys go: \<open>slots a k\<close> is what \<open>a[k]\<close> reads, which
  is \<open>undefined\<close> where nothing was stored, and \<open>len a\<close> is \<open>a.length\<close>. The ranks of the
  layout are integers, so every key is an \<open>int\<close>. A read never raises. A write
  \<open>a[k] = v\<close> stores \<open>v\<close> under the key \<open>k\<close> whatever \<open>k\<close> is; when \<open>k\<close> is an array
  index (\<open>0 \<le> k < 2^32 - 1\<close>) at or beyond the length, the length becomes \<open>k + 1\<close>; a
  negative key, or one from \<open>2^32 - 1\<close> on, is an ordinary property of the array object
  and leaves the length alone.
\<close>

record 'a jsarray =
  slots :: "int \<Rightarrow> 'a js"
  len :: nat

definition empty_array :: "'a jsarray" where
  "empty_array = \<lparr>slots = (\<lambda>k. Undefined), len = 0\<rparr>"

definition array_get :: "'a jsarray \<Rightarrow> int \<Rightarrow> 'a js" where
  "array_get a k = slots a k"

definition array_set :: "'a jsarray \<Rightarrow> int \<Rightarrow> 'a js \<Rightarrow> 'a jsarray" where
  "array_set a k v =
     \<lparr>slots = (slots a)(k := v),
      len = (if 0 \<le> k \<and> k < 2 ^ 32 - 1 \<and> int (len a) \<le> k then nat k + 1 else len a)\<rparr>"

text \<open>\<open>xs.push(x)\<close> on a dense array, which is a list here.\<close>

definition push :: "'a list \<Rightarrow> 'a \<Rightarrow> 'a list" where
  "push xs x = xs @ [x]"

subsection \<open>The fields of the class\<close>

text \<open>
  Modelled from the spec: the base class mxGraphAbstractHierarchyCell is imported by
  mxGraphHierarchyEdge.js but is not among the sources. The spec's data model gives the
  fields the edge inherits and uses: \<open>minRank\<close>, \<open>maxRank\<close>, the scratch array \<open>temp\<close>, and
  the two lazily computed caches \<open>nextLayerConnectedCells\<close> and
  \<open>previousLayerConnectedCells\<close>, which are \<open>null\<close> until they are built.

  \<open>'r\<close> is the type of references to hierarchy cells (nodes and edges of the internal
  graph) and \<open>'v\<close> the type of the scratch values. An entry of a cache is an array of
  cells, each of them a field value (\<open>source\<close> may be \<open>null\<close>) or the edge itself.
\<close>

record ('r, 'v) mxGraphAbstractHierarchyCell =
  minRank :: int
  maxRank :: int
  temp :: "'v jsarray"
  nextLayerConnectedCells :: "'r js list jsarray js"
  previousLayerConnectedCells :: "'r js list jsarray js"

text \<open>
  The fields mxGraphHierarchyEdge declares itself. \<open>'c\<close> is the type of the cells of the
  graph that is laid out and \<open>'i\<close> the type of their identities.
\<close>

record ('r, 'v, 'c, 'i) mxGraphHierarchyEdge = "('r, 'v) mxGraphAbstractHierarchyCell" +
  edges :: "'c list js"
  ids :: "'i list js"
  source :: "'r js"
  target :: "'r js"
  isReversed :: bool

subsection \<open>The constructor\<close>

text \<open>
  The loop \<open>for (let i = 0; i < edges.length; i += 1) this.ids.push(mxObjectIdentity.get(edges[i]))\<close>,
  with the array \<open>this.ids\<close> as the accumulator. mxObjectIdentity is imported but is not
  among the sources: its \<open>get\<close>, which gives the identity of an object, is the parameter
  \<open>get\<close>.
\<close>

function constructor_loop :: "('c \<Rightarrow> 'i) \<Rightarrow> 'c list \<Rightarrow> nat \<Rightarrow> 'i list \<Rightarrow> 'i list" where
  "constructor_loop get es i acc =
     (if i < length es then constructor_loop get es (i + 1) (push acc (get (es ! i))) else acc)"
  by pat_completeness auto
termination
  by (relation "measure (\<lambda>(get, es, i, acc). length es - i)") auto

declare constructor_loop.simps [simp del]

text \<open>
  \<open>new mxGraphHierarchyEdge(edges)\<close>. The constructor of the base class runs first; what
  it leaves in the inherited fields is the parameter \<open>super\<close>. Then the field
  initialisers of the class run (\<open>edges = null\<close>, \<open>ids = null\<close>, \<open>source = null\<close>,
  \<open>target = null\<close>, \<open>isReversed = false\<close>), then the body. When \<open>edges\<close> is \<open>null\<close> or
  \<open>undefined\<close>, reading \<open>edges.length\<close> raises a TypeError and no object is built.
\<close>

definition new_mxGraphHierarchyEdge ::
  "('c list js \<Rightarrow> ('r, 'v) mxGraphAbstractHierarchyCell) \<Rightarrow> ('c \<Rightarrow> 'i) \<Rightarrow> 'c list js
     \<Rightarrow> error + ('r, 'v, 'c, 'i) mxGraphHierarchyEdge" where
  "new_mxGraphHierarchyEdge super get es =
     (let b = super es;
          this = \<lparr>minRank = minRank b, maxRank = maxRank b, temp = temp b,
                  nextLayerConnectedCells = nextLayerConnectedCells b,
                  previousLayerConnectedCells = previousLayerConnectedCells b,
                  edges = Null, ids = Null, source = Null, target = Null,
                  isReversed = False\<rparr>;
          this = this\<lparr>edges := es\<rparr>;
          this = this\<lparr>ids := Val []\<rparr>
      in case es of
           Val xs \<Rightarrow> Inr (this\<lparr>ids := Val (constructor_loop get xs 0 [])\<rparr>)
         | _ \<Rightarrow> Inl TypeError)"

subsection \<open>The methods\<close>

text \<open>
  \<open>invert(layer)\<close>: the parameter \<open>layer\<close> is not used by the body and is left out.
\<close>

definition invert :: "('r, 'v, 'c, 'i) mxGraphHierarchyEdge \<Rightarrow> ('r, 'v, 'c, 'i) mxGraphHierarchyEdge" where
  "invert this =
     (let tmp = source this;
          this = this\<lparr>source := target this\<rparr>;
          this = this\<lparr>target := tmp\<rparr>
      in this\<lparr>isReversed := \<not> isReversed this\<rparr>)"

text \<open>
  The loop of \<open>getNextLayerConnectedCells\<close>, which fills the fresh array
  \<open>this.nextLayerConnectedCells\<close> (the accumulator \<open>cells\<close>): at each \<open>i\<close> below
  \<open>this.temp.length\<close>, the entry \<open>i\<close> becomes a new array onto which \<open>this.source\<close> is
  pushed when \<open>i === this.temp.length - 1\<close>, and \<open>this\<close> otherwise. \<open>self\<close> is the
  reference to the edge the method is called on.
\<close>

function nextLayer_loop ::
  "'r \<Rightarrow> ('r, 'v, 'c, 'i) mxGraphHierarchyEdge \<Rightarrow> nat \<Rightarrow> 'r js list jsarray \<Rightarrow> 'r js list jsarray" where
  "nextLayer_loop self this i cells =
     (if i < len (temp this)
      then nextLayer_loop self this (i + 1)
             (array_set cells (int i)
                (Val (push [] (if int i = int (len (temp this)) - 1 then source this else Val self))))
      else cells)"
  by pat_completeness auto
termination
  by (relation "measure (\<lambda>(self, this, i, cells). len (temp this) - i)") auto

declare nextLayer_loop.simps [simp del]

text \<open>
  \<open>getNextLayerConnectedCells(layer)\<close> builds the cache when the field \<open>== null\<close> and
  returns the entry \<open>layer - this.minRank - 1\<close> of the cache, which is not \<open>null\<close> by
  then. The result is the pair of the returned value and the edge afterwards.
\<close>

definition getNextLayerConnectedCells ::
  "'r \<Rightarrow> ('r, 'v, 'c, 'i) mxGraphHierarchyEdge \<Rightarrow> int
     \<Rightarrow> 'r js list js \<times> ('r, 'v, 'c, 'i) mxGraphHierarchyEdge" where
  "getNextLayerConnectedCells self this layer =
     (let this = (if eq_null (nextLayerConnectedCells this)
                  then this\<lparr>nextLayerConnectedCells := Val (nextLayer_loop self this 0 empty_array)\<rparr>
                  else this)
      in (case nextLayerConnectedCells this of
            Val cells \<Rightarrow> (array_get cells (layer - minRank this - 1), this)))"

text \<open>
  The loop of \<open>getPreviousLayerConnectedCells\<close>: \<open>this.target\<close> is pushed when \<open>i === 0\<close>,
  and \<open>this\<close> otherwise.
\<close>

function previousLayer_loop ::
  "'r \<Rightarrow> ('r, 'v, 'c, 'i) mxGraphHierarchyEdge \<Rightarrow> nat \<Rightarrow> 'r js list jsarray \<Rightarrow> 'r js list jsarray" where
  "previousLayer_loop self this i cells =
     (if i < len (temp this)
      then previousLayer_loop self this (i + 1)
             (array_set cells (int i)
                (Val (push [] (if i = 0 then target this else Val self))))
      else cells)"
  by pat_completeness auto
termination
  by (relation "measure (\<lambda>(self, this, i, cells). len (temp this) - i)") auto

declare previousLayer_loop.simps [simp del]

definition getPreviousLayerConnectedCells ::
  "'r \<Rightarrow> ('r, 'v, 'c, 'i) mxGraphHierarchyEdge \<Rightarrow> int
     \<Rightarrow> 'r js list js \<times> ('r, 'v, 'c, 'i) mxGraphHierarchyEdge" where
  "getPreviousLayerConnectedCells self this layer =
     (let this = (if eq_null (previousLayerConnectedCells this)
                  then this\<lparr>previousLayerConnectedCells := Val (previousLayer_loop self this 0 empty_array)\<rparr>
                  else this)
      in (case previousLayerConnectedCells this of
            Val cells \<Rightarrow> (array_get cells (layer - minRank this - 1), this)))"

definition isEdge :: "('r, 'v, 'c, 'i) mxGraphHierarchyEdge \<Rightarrow> bool" where
  "isEdge this = True"

text \<open>
  The scratch slot of a layer is the entry \<open>layer - this.minRank - 1\<close> of \<open>this.temp\<close>;
  neither method checks the index.
\<close>

definition getGeneralPurposeVariable :: "('r, 'v, 'c, 'i) mxGraphHierarchyEdge \<Rightarrow> int \<Rightarrow> 'v js" where
  "getGeneralPurposeVariable this layer = array_get (temp this) (layer - minRank this - 1)"

definition setGeneralPurposeVariable ::
  "('r, 'v, 'c, 'i) mxGraphHierarchyEdge \<Rightarrow> int \<Rightarrow> 'v js \<Rightarrow> ('r, 'v, 'c, 'i) mxGraphHierarchyEdge" where
  "setGeneralPurposeVariable this layer v =
     this\<lparr>temp := array_set (temp this) (layer - minRank this - 1) v\<rparr>"

text \<open>
  \<open>getCoreCell()\<close>: the first branch is \<open>this.edges != null\<close>, with the test
  \<open>this.edges.length > 0\<close> inside it.
\<close>

definition getCoreCell :: "('r, 'v, 'c, 'i) mxGraphHierarchyEdge \<Rightarrow> 'c js" where
  "getCoreCell this =
     (case edges this of
        Val xs \<Rightarrow> if length xs > 0 then Val (xs ! 0) else Null
      | _ \<Rightarrow> Null)"

subsection \<open>A concrete edge\<close>

text \<open>
  The edge of the spec's example: \<open>minRank = 0\<close>, \<open>maxRank = 2\<close>, a scratch array of two
  slots, both caches still \<open>null\<close>. It wraps the two parallel graph edges 10 and 11, runs
  from cell 1 to cell 2, and is itself the cell 7.
\<close>

definition example_temp :: "int jsarray" where
  "example_temp = array_set (array_set empty_array 0 (Val 0)) 1 (Val 0)"

definition example_edge :: "(nat, int, nat, nat) mxGraphHierarchyEdge" where
  "example_edge =
     \<lparr>minRank = 0, maxRank = 2, temp = example_temp,
      nextLayerConnectedCells = Null, previousLayerConnectedCells = Null,
      edges = Val [10, 11], ids = Val [110, 111], source = Val 1, target = Val 2,
      isReversed = False\<rparr>"

definition example_super :: "nat list js \<Rightarrow> (nat, int) mxGraphAbstractHierarchyCell" where
  "example_super es =
     \<lparr>minRank = - 1, maxRank = - 1, temp = empty_array,
      nextLayerConnectedCells = Null, previousLayerConnectedCells = Null\<rparr>"

definition example_get :: "nat \<Rightarrow> nat" where
  "example_get c = c + 100"

section \<open>Properties\<close>

subsection \<open>What the loops compute\<close>

lemma slots_array_set: "slots (array_set a k v) j = (if j = k then v else slots a j)"
  by (simp add: array_set_def)

text \<open>
  The loop that starts at \<open>i\<close> writes the entries \<open>i, ..., temp.length - 1\<close> and leaves every
  other key of the accumulator as it was.
\<close>

lemma nextLayer_loop_slots:
  "slots (nextLayer_loop self this i cells) k =
     (if int i \<le> k \<and> k < int (len (temp this))
      then Val [if k = int (len (temp this)) - 1 then source this else Val self]
      else slots cells k)"
proof (induction self this i cells rule: nextLayer_loop.induct)
  case (1 self this i cells)
  show ?case
  proof (cases "i < len (temp this)")
    case True
    then show ?thesis
      using "1.IH" [OF True]
      by (subst nextLayer_loop.simps) (auto simp: slots_array_set push_def)
  next
    case False
    then show ?thesis
      by (subst nextLayer_loop.simps) auto
  qed
qed

lemma previousLayer_loop_slots:
  "slots (previousLayer_loop self this i cells) k =
     (if int i \<le> k \<and> k < int (len (temp this))
      then Val [if k = 0 then target this else Val self]
      else slots cells k)"
proof (induction self this i cells rule: previousLayer_loop.induct)
  case (1 self this i cells)
  show ?case
  proof (cases "i < len (temp this)")
    case True
    then show ?thesis
      using "1.IH" [OF True]
      by (subst previousLayer_loop.simps) (auto simp: slots_array_set push_def)
  next
    case False
    then show ?thesis
      by (subst previousLayer_loop.simps) auto
  qed
qed

lemma constructor_loop_eq: "constructor_loop get es i acc = acc @ map get (drop i es)"
proof (induction get es i acc rule: constructor_loop.induct)
  case (1 get es i acc)
  show ?case
  proof (cases "i < length es")
    case True
    then show ?thesis
      using "1.IH" [OF True]
      by (subst constructor_loop.simps) (simp add: push_def Cons_nth_drop_Suc [symmetric])
  next
    case False
    then show ?thesis
      by (subst constructor_loop.simps) simp
  qed
qed

text \<open>The two paths of the cached getters: the cache is built, or it is there already.\<close>

lemma getNext_built:
  "eq_null (nextLayerConnectedCells this) \<Longrightarrow>
   getNextLayerConnectedCells self this layer =
     (slots (nextLayer_loop self this 0 empty_array) (layer - minRank this - 1),
      this\<lparr>nextLayerConnectedCells := Val (nextLayer_loop self this 0 empty_array)\<rparr>)"
  by (simp add: getNextLayerConnectedCells_def array_get_def)

lemma getNext_cached:
  "nextLayerConnectedCells this = Val cells \<Longrightarrow>
   getNextLayerConnectedCells self this layer = (slots cells (layer - minRank this - 1), this)"
  by (simp add: getNextLayerConnectedCells_def array_get_def)

lemma getPrevious_built:
  "eq_null (previousLayerConnectedCells this) \<Longrightarrow>
   getPreviousLayerConnectedCells self this layer =
     (slots (previousLayer_loop self this 0 empty_array) (layer - minRank this - 1),
      this\<lparr>previousLayerConnectedCells := Val (previousLayer_loop self this 0 empty_array)\<rparr>)"
  by (simp add: getPreviousLayerConnectedCells_def array_get_def)

lemma getPrevious_cached:
  "previousLayerConnectedCells this = Val cells \<Longrightarrow>
   getPreviousLayerConnectedCells self this layer = (slots cells (layer - minRank this - 1), this)"
  by (simp add: getPreviousLayerConnectedCells_def array_get_def)

lemma example_temp_len: "len example_temp = 2"
  by (simp add: example_temp_def array_set_def empty_array_def)

lemma example_temp_slots: "slots example_temp k = (if k = 0 \<or> k = 1 then Val 0 else Undefined)"
  by (simp add: example_temp_def array_set_def empty_array_def)

subsection \<open>The cells on the next and on the previous layer\<close>

text \<open>
  Claim C1. On an edge whose cache \<open>nextLayerConnectedCells\<close> is not built yet (the first
  call), \<open>getNextLayerConnectedCells(layer)\<close> with \<open>layer\<close> among
  \<open>minRank + 1, ..., minRank + temp.length\<close> returns the one-element array \<open>[source]\<close>
  when \<open>layer = minRank + temp.length\<close>, and the one-element array \<open>[this]\<close> at every other
  layer of the range. The method does not read \<open>maxRank\<close>, so this holds whatever
  \<open>maxRank\<close> is, in particular when \<open>temp.length = maxRank - minRank\<close>.
\<close>

theorem getNextLayerConnectedCells_first_call:
  assumes "eq_null (nextLayerConnectedCells this)"
    and "layer \<in> {minRank this + 1 .. minRank this + int (len (temp this))}"
  shows "fst (getNextLayerConnectedCells self this layer) =
           Val [if layer = minRank this + int (len (temp this)) then source this else Val self]"
  using assms by (auto simp: getNext_built nextLayer_loop_slots)

text \<open>
  The example of the spec: with \<open>minRank = 0\<close>, \<open>maxRank = 2\<close> and two scratch slots,
  layer 1 gives \<open>[this]\<close> and layer 2 gives \<open>[source]\<close>.
\<close>

theorem getNextLayerConnectedCells_first_call_witness:
  "eq_null (nextLayerConnectedCells example_edge) \<and> minRank example_edge = 0
   \<and> maxRank example_edge = 2 \<and> len (temp example_edge) = 2 \<and> source example_edge = Val 1
   \<and> fst (getNextLayerConnectedCells 7 example_edge 1) = Val [Val 7]
   \<and> fst (getNextLayerConnectedCells 7 example_edge 2) = Val [Val 1]"
  using getNextLayerConnectedCells_first_call [of example_edge 1 7]
    getNextLayerConnectedCells_first_call [of example_edge 2 7]
  by (simp add: example_edge_def example_temp_len)

text \<open>
  Claim C2. On an edge whose cache \<open>previousLayerConnectedCells\<close> is not built yet,
  \<open>getPreviousLayerConnectedCells(layer)\<close> with \<open>layer\<close> among
  \<open>minRank + 1, ..., minRank + temp.length\<close> returns \<open>[target]\<close> when
  \<open>layer = minRank + 1\<close>, and \<open>[this]\<close> at every other layer of the range.
\<close>

theorem getPreviousLayerConnectedCells_first_call:
  assumes "eq_null (previousLayerConnectedCells this)"
    and "layer \<in> {minRank this + 1 .. minRank this + int (len (temp this))}"
  shows "fst (getPreviousLayerConnectedCells self this layer) =
           Val [if layer = minRank this + 1 then target this else Val self]"
  using assms by (auto simp: getPrevious_built previousLayer_loop_slots)

theorem getPreviousLayerConnectedCells_first_call_witness:
  "eq_null (previousLayerConnectedCells example_edge) \<and> minRank example_edge = 0
   \<and> len (temp example_edge) = 2 \<and> target example_edge = Val 2
   \<and> fst (getPreviousLayerConnectedCells 7 example_edge 1) = Val [Val 2]
   \<and> fst (getPreviousLayerConnectedCells 7 example_edge 2) = Val [Val 7]"
  using getPreviousLayerConnectedCells_first_call [of example_edge 1 7]
    getPreviousLayerConnectedCells_first_call [of example_edge 2 7]
  by (simp add: example_edge_def example_temp_len)

subsection \<open>Inversion\<close>

text \<open>
  Claim C3. After \<open>invert()\<close>, \<open>source\<close> is the former \<open>target\<close>, \<open>target\<close> is the
  former \<open>source\<close>, and \<open>isReversed\<close> is negated.
\<close>

theorem invert_swaps:
  "source (invert e) = target e \<and> target (invert e) = source e
   \<and> isReversed (invert e) = (\<not> isReversed e)"
  by (simp add: invert_def)

text \<open>
  Claim C4. Two calls of \<open>invert()\<close> in succession restore \<open>source\<close>, \<open>target\<close> and
  \<open>isReversed\<close>; the edge as a whole is as it was.
\<close>

theorem invert_invert:
  "source (invert (invert e)) = source e \<and> target (invert (invert e)) = target e
   \<and> isReversed (invert (invert e)) = isReversed e \<and> invert (invert e) = e"
  by (simp add: invert_def)

text \<open>
  Claim C5. \<open>invert()\<close> changes the fields \<open>source\<close>, \<open>target\<close> and \<open>isReversed\<close> only:
  \<open>minRank\<close>, \<open>maxRank\<close>, the scratch array \<open>temp\<close>, the list \<open>edges\<close>, the list \<open>ids\<close>
  and both caches are what they were.
\<close>

theorem invert_frame:
  "invert e = e\<lparr>source := target e, target := source e, isReversed := \<not> isReversed e\<rparr>
   \<and> minRank (invert e) = minRank e \<and> maxRank (invert e) = maxRank e
   \<and> temp (invert e) = temp e \<and> edges (invert e) = edges e \<and> ids (invert e) = ids e
   \<and> nextLayerConnectedCells (invert e) = nextLayerConnectedCells e
   \<and> previousLayerConnectedCells (invert e) = previousLayerConnectedCells e"
  by (simp add: invert_def)

subsection \<open>The scratch slots\<close>

text \<open>
  Claim C6. For every edge and every layer, \<open>setGeneralPurposeVariable(layer, v)\<close> stores
  \<open>v\<close> under the key \<open>layer - minRank - 1\<close> of \<open>temp\<close> and changes no other key of
  \<open>temp\<close> and no other field of the edge, and \<open>getGeneralPurposeVariable(layer)\<close> then
  returns \<open>v\<close>. (The length of \<open>temp\<close> follows the rule of array writes.)
\<close>

theorem setGeneralPurposeVariable_get:
  "slots (temp (setGeneralPurposeVariable e layer v)) = (slots (temp e))(layer - minRank e - 1 := v)
   \<and> setGeneralPurposeVariable e layer v = e\<lparr>temp := temp (setGeneralPurposeVariable e layer v)\<rparr>
   \<and> getGeneralPurposeVariable (setGeneralPurposeVariable e layer v) layer = v"
  by (simp add: setGeneralPurposeVariable_def getGeneralPurposeVariable_def array_get_def
      array_set_def)

subsection \<open>The caches survive an inversion\<close>

text \<open>
  Claim C7. Let \<open>getNextLayerConnectedCells\<close> have been called, so that its cache is
  there, and let \<open>invert()\<close> follow. A further call of \<open>getNextLayerConnectedCells\<close>
  returns what it would have returned before the inversion and leaves the edge as it
  is: the cache is neither rebuilt nor invalidated, while \<open>source\<close> and \<open>target\<close> are
  swapped. When the first call built the cache and \<open>temp\<close> has a slot, the call at the
  topmost layer \<open>minRank + temp.length\<close> returns the array holding the source of before
  the inversion, which is the target now. The same holds for
  \<open>getPreviousLayerConnectedCells\<close>, which at the layer \<open>minRank + 1\<close> returns the array
  holding the target of before the inversion.
\<close>

theorem invert_keeps_cache:
  "(let e1 = snd (getNextLayerConnectedCells self e l0); e2 = invert e1 in
      fst (getNextLayerConnectedCells self e2 layer)
        = fst (getNextLayerConnectedCells self e1 layer)
    \<and> snd (getNextLayerConnectedCells self e2 layer) = e2
    \<and> nextLayerConnectedCells e2 = nextLayerConnectedCells e1
    \<and> target e2 = source e \<and> source e2 = target e
    \<and> (eq_null (nextLayerConnectedCells e) \<and> 0 < len (temp e) \<longrightarrow>
         fst (getNextLayerConnectedCells self e2 (minRank e + int (len (temp e))))
           = Val [source e]))
 \<and> (let e1 = snd (getPreviousLayerConnectedCells self e l0); e2 = invert e1 in
      fst (getPreviousLayerConnectedCells self e2 layer)
        = fst (getPreviousLayerConnectedCells self e1 layer)
    \<and> snd (getPreviousLayerConnectedCells self e2 layer) = e2
    \<and> previousLayerConnectedCells e2 = previousLayerConnectedCells e1
    \<and> source e2 = target e \<and> target e2 = source e
    \<and> (eq_null (previousLayerConnectedCells e) \<and> 0 < len (temp e) \<longrightarrow>
         fst (getPreviousLayerConnectedCells self e2 (minRank e + 1)) = Val [target e]))"
proof -
  have n: "\<exists>cells. nextLayerConnectedCells (snd (getNextLayerConnectedCells self e l0)) = Val cells
      \<and> (eq_null (nextLayerConnectedCells e) \<longrightarrow> cells = nextLayer_loop self e 0 empty_array)
      \<and> source (snd (getNextLayerConnectedCells self e l0)) = source e
      \<and> target (snd (getNextLayerConnectedCells self e l0)) = target e
      \<and> minRank (snd (getNextLayerConnectedCells self e l0)) = minRank e"
    by (cases "nextLayerConnectedCells e") (simp_all add: getNext_built getNext_cached)
  have p: "\<exists>cells. previousLayerConnectedCells (snd (getPreviousLayerConnectedCells self e l0)) = Val cells
      \<and> (eq_null (previousLayerConnectedCells e) \<longrightarrow> cells = previousLayer_loop self e 0 empty_array)
      \<and> source (snd (getPreviousLayerConnectedCells self e l0)) = source e
      \<and> target (snd (getPreviousLayerConnectedCells self e l0)) = target e
      \<and> minRank (snd (getPreviousLayerConnectedCells self e l0)) = minRank e"
    by (cases "previousLayerConnectedCells e") (simp_all add: getPrevious_built getPrevious_cached)
  from n obtain cn where cn:
    "nextLayerConnectedCells (snd (getNextLayerConnectedCells self e l0)) = Val cn"
    "eq_null (nextLayerConnectedCells e) \<longrightarrow> cn = nextLayer_loop self e 0 empty_array"
    "source (snd (getNextLayerConnectedCells self e l0)) = source e"
    "target (snd (getNextLayerConnectedCells self e l0)) = target e"
    "minRank (snd (getNextLayerConnectedCells self e l0)) = minRank e"
    by blast
  from p obtain cp where cp:
    "previousLayerConnectedCells (snd (getPreviousLayerConnectedCells self e l0)) = Val cp"
    "eq_null (previousLayerConnectedCells e) \<longrightarrow> cp = previousLayer_loop self e 0 empty_array"
    "source (snd (getPreviousLayerConnectedCells self e l0)) = source e"
    "target (snd (getPreviousLayerConnectedCells self e l0)) = target e"
    "minRank (snd (getPreviousLayerConnectedCells self e l0)) = minRank e"
    by blast
  have n2: "nextLayerConnectedCells (invert (snd (getNextLayerConnectedCells self e l0))) = Val cn"
    "minRank (invert (snd (getNextLayerConnectedCells self e l0))) = minRank e"
    using cn by (simp_all add: invert_def)
  have p2: "previousLayerConnectedCells (invert (snd (getPreviousLayerConnectedCells self e l0))) = Val cp"
    "minRank (invert (snd (getPreviousLayerConnectedCells self e l0))) = minRank e"
    using cp by (simp_all add: invert_def)
  show ?thesis
    unfolding Let_def getNext_cached [OF n2(1)] getNext_cached [OF cn(1)]
      getPrevious_cached [OF p2(1)] getPrevious_cached [OF cp(1)]
    using cn cp n2 p2
    by (auto simp: invert_def nextLayer_loop_slots previousLayer_loop_slots)
qed

text \<open>
  On the example edge: after a first call at layer 1 and the inversion, the source is
  the cell 2 and the target the cell 1, and layer 2 still gives the array holding the
  cell 1; on the other side layer 1 still gives the array holding the cell 2.
\<close>

theorem invert_keeps_cache_witness:
  "eq_null (nextLayerConnectedCells example_edge)
   \<and> eq_null (previousLayerConnectedCells example_edge) \<and> 0 < len (temp example_edge)
   \<and> source (invert (snd (getNextLayerConnectedCells 7 example_edge 1))) = Val 2
   \<and> target (invert (snd (getNextLayerConnectedCells 7 example_edge 1))) = Val 1
   \<and> fst (getNextLayerConnectedCells 7
            (invert (snd (getNextLayerConnectedCells 7 example_edge 1))) 2) = Val [Val 1]
   \<and> fst (getPreviousLayerConnectedCells 7
            (invert (snd (getPreviousLayerConnectedCells 7 example_edge 1))) 1) = Val [Val 2]"
proof -
  have a: "eq_null (nextLayerConnectedCells example_edge)"
    and b: "eq_null (previousLayerConnectedCells example_edge)"
    and c: "0 < len (temp example_edge)"
    by (simp_all add: example_edge_def example_temp_len)
  have d: "minRank example_edge + int (len (temp example_edge)) = 2"
    "minRank example_edge + 1 = 1" "source example_edge = Val 1" "target example_edge = Val 2"
    by (simp_all add: example_edge_def example_temp_len)
  note t = invert_keeps_cache [of 7 example_edge 1 2, unfolded Let_def d]
  from a b c t show ?thesis by blast
qed

subsection \<open>The core cell\<close>

text \<open>
  Claim C8. \<open>getCoreCell()\<close> returns \<open>edges[0]\<close> when \<open>edges\<close> is neither \<open>null\<close> nor
  empty, and \<open>null\<close> otherwise.
\<close>

theorem getCoreCell_first_or_null:
  "(\<forall>xs. edges e = Val xs \<and> xs \<noteq> [] \<longrightarrow> getCoreCell e = Val (xs ! 0))
   \<and> (edges e = Null \<or> edges e = Undefined \<or> edges e = Val [] \<longrightarrow> getCoreCell e = Null)"
  by (auto simp: getCoreCell_def)

theorem getCoreCell_first_or_null_witness:
  "edges example_edge = Val [10, 11] \<and> getCoreCell example_edge = Val 10
   \<and> getCoreCell (example_edge\<lparr>edges := Val []\<rparr>) = Null
   \<and> getCoreCell (example_edge\<lparr>edges := Null\<rparr>) = Null
   \<and> getCoreCell (example_edge\<lparr>edges := Undefined\<rparr>) = Null"
  using getCoreCell_first_or_null [of example_edge]
    getCoreCell_first_or_null [of "example_edge\<lparr>edges := Val []\<rparr>"]
    getCoreCell_first_or_null [of "example_edge\<lparr>edges := Null\<rparr>"]
    getCoreCell_first_or_null [of "example_edge\<lparr>edges := Undefined\<rparr>"]
  by (simp add: example_edge_def)

subsection \<open>Layers outside the range of the scratch array\<close>

text \<open>
  Claim C9 says that \<open>getGeneralPurposeVariable(layer)\<close> returns \<open>undefined\<close> at every
  layer outside \<open>minRank + 1, ..., minRank + temp.length\<close>, the layer \<open>minRank\<close> among
  them. That fails once a value was stored under a key that is no index of the array:
  on the example edge, \<open>setGeneralPurposeVariable(0, 7)\<close> stores 7 under the key \<open>-1\<close>
  and leaves the length at 2, so the layer 0 is still outside the range, and
  \<open>getGeneralPurposeVariable(0)\<close> returns 7.
\<close>

theorem getGeneralPurposeVariable_outside_counterexample:
  "0 \<notin> {minRank (setGeneralPurposeVariable example_edge 0 (Val 7)) + 1 ..
          minRank (setGeneralPurposeVariable example_edge 0 (Val 7))
            + int (len (temp (setGeneralPurposeVariable example_edge 0 (Val 7))))}
   \<and> getGeneralPurposeVariable (setGeneralPurposeVariable example_edge 0 (Val 7)) 0 = Val 7"
  by (simp add: setGeneralPurposeVariable_def getGeneralPurposeVariable_def array_get_def
      array_set_def example_edge_def)

text \<open>
  Claim C9, amended. Let \<open>layer\<close> be outside \<open>minRank + 1, ..., minRank + temp.length\<close>.
  Both methods return a value, none raises. When \<open>temp\<close> holds nothing under the keys
  outside \<open>0, ..., temp.length - 1\<close>, \<open>getGeneralPurposeVariable(layer)\<close> returns
  \<open>undefined\<close>, and so does \<open>getGeneralPurposeVariable(minRank)\<close>, which reads the key
  \<open>-1\<close>. When \<open>getNextLayerConnectedCells\<close> builds its cache, in this call or in an
  earlier one, \<open>getNextLayerConnectedCells(layer)\<close> returns \<open>undefined\<close>.
\<close>

theorem outside_range_undefined:
  assumes "layer \<notin> {minRank e + 1 .. minRank e + int (len (temp e))}"
  shows "((\<forall>k. k < 0 \<or> int (len (temp e)) \<le> k \<longrightarrow> slots (temp e) k = Undefined) \<longrightarrow>
            getGeneralPurposeVariable e layer = Undefined
          \<and> getGeneralPurposeVariable e (minRank e) = Undefined)
       \<and> (eq_null (nextLayerConnectedCells e) \<longrightarrow>
            fst (getNextLayerConnectedCells self e layer) = Undefined
          \<and> fst (getNextLayerConnectedCells self
                   (snd (getNextLayerConnectedCells self e l0)) layer) = Undefined)"
  using assms
  by (auto simp: getGeneralPurposeVariable_def array_get_def getNext_built getNext_cached
      nextLayer_loop_slots empty_array_def)

theorem outside_range_undefined_witness:
  "3 \<notin> {minRank example_edge + 1 .. minRank example_edge + int (len (temp example_edge))}
   \<and> len (temp example_edge) = 2 \<and> eq_null (nextLayerConnectedCells example_edge)
   \<and> getGeneralPurposeVariable example_edge 3 = Undefined
   \<and> getGeneralPurposeVariable example_edge 0 = Undefined
   \<and> fst (getNextLayerConnectedCells 7 example_edge 3) = Undefined
   \<and> fst (getNextLayerConnectedCells 7 (snd (getNextLayerConnectedCells 7 example_edge 1)) 3)
       = Undefined"
proof -
  have out: "3 \<notin> {minRank example_edge + 1 .. minRank example_edge + int (len (temp example_edge))}"
    by (simp add: example_edge_def example_temp_len)
  have tidy: "\<forall>k. k < 0 \<or> int (len (temp example_edge)) \<le> k \<longrightarrow> slots (temp example_edge) k = Undefined"
    by (simp add: example_edge_def example_temp_len example_temp_slots)
  have fresh: "eq_null (nextLayerConnectedCells example_edge)"
    by (simp add: example_edge_def)
  have m: "minRank example_edge = 0" "len (temp example_edge) = 2"
    by (simp_all add: example_edge_def example_temp_len)
  from outside_range_undefined [OF out, of 7 1] tidy fresh
  have "getGeneralPurposeVariable example_edge 3 = Undefined"
    "getGeneralPurposeVariable example_edge (minRank example_edge) = Undefined"
    "fst (getNextLayerConnectedCells 7 example_edge 3) = Undefined"
    "fst (getNextLayerConnectedCells 7 (snd (getNextLayerConnectedCells 7 example_edge 1)) 3)
       = Undefined"
    by blast+
  with out fresh m show ?thesis by simp
qed

subsection \<open>The identities recorded by the constructor\<close>

text \<open>
  Claim C10. For every non-empty list of graph edges, the constructor succeeds, keeps
  the list in \<open>edges\<close>, and records in \<open>ids\<close> one identity for each edge, in the same
  order: \<open>ids.length = edges.length\<close> and \<open>ids[i]\<close> is the identity of \<open>edges[i]\<close> at
  every index \<open>i\<close>.
\<close>

theorem constructor_ids:
  assumes "xs \<noteq> []"
  shows "\<exists>this. new_mxGraphHierarchyEdge super get (Val xs) = Inr this \<and> edges this = Val xs
           \<and> (\<exists>is. ids this = Val is \<and> length is = length xs
                 \<and> (\<forall>i<length xs. is ! i = get (xs ! i)))"
  by (simp add: new_mxGraphHierarchyEdge_def constructor_loop_eq Let_def)

theorem constructor_ids_witness:
  "\<exists>this. new_mxGraphHierarchyEdge example_super example_get (Val [10, 11]) = Inr this
      \<and> edges this = Val [10, 11] \<and> ids this = Val [110, 111]"
proof -
  have ne: "[10, 11 :: nat] \<noteq> []" by simp
  from constructor_ids [OF ne, of example_super example_get]
  obtain this "is" where
    t: "new_mxGraphHierarchyEdge example_super example_get (Val [10, 11]) = Inr this"
       "edges this = Val [10, 11]" "ids this = Val is" "length is = 2"
       "\<forall>i<2. is ! i = example_get ([10, 11] ! i)"
    by auto
  from t(5) have "is ! 0 = 110" "is ! 1 = 111"
    by (simp_all add: example_get_def)
  with t(4) have "is = [110, 111]"
    by (auto simp: length_Suc_conv numeral_2_eq_2)
  with t show ?thesis by simp
qed

end
